theory Spec2Isabelle
  imports Complex_Main
begin

section \<open>Python values used by \<^verbatim>\<open>app.py\<close>\<close>

text \<open>
  A float of the program is an IEEE double: a finite value (the real number it denotes),
  one of the two infinities, or NaN. Only comparisons are given a meaning here; the
  rounded product of two floats is computed by the Python runtime and enters every
  definition below as the parameter \<open>fmul\<close>, of which no property is assumed.
\<close>

datatype pyfloat = Finite real | PosInf | NegInf | NaN

text \<open>\<^verbatim>\<open>x > y\<close> and \<^verbatim>\<open>x <= y\<close> on floats: every comparison with NaN is false.\<close>

fun float_gt :: "pyfloat \<Rightarrow> pyfloat \<Rightarrow> bool" where
  "float_gt (Finite a) (Finite b) = (b < a)"
| "float_gt (Finite a) NegInf = True"
| "float_gt PosInf (Finite b) = True"
| "float_gt PosInf NegInf = True"
| "float_gt _ _ = False"

fun float_le :: "pyfloat \<Rightarrow> pyfloat \<Rightarrow> bool" where
  "float_le (Finite a) (Finite b) = (a \<le> b)"
| "float_le (Finite a) PosInf = True"
| "float_le NegInf (Finite b) = True"
| "float_le NegInf NegInf = True"
| "float_le NegInf PosInf = True"
| "float_le PosInf PosInf = True"
| "float_le _ _ = False"

text \<open>
  Exceptions are values. \<open>Raised\<close> is an exception raised inside a library call
  (joblib, the fitted artifacts, shap), \<open>StreamlitAPIException\<close> is what Streamlit raises
  for an argument it rejects; the others are raised by the language itself.
\<close>

datatype error =
  KeyError string | IndexError | ValueError | OverflowError | StreamlitAPIException | Raised string

text \<open>\<^verbatim>\<open>xs[i]\<close> for a non-negative literal index.\<close>

definition py_index :: "'a list \<Rightarrow> nat \<Rightarrow> error + 'a" where
  "py_index xs i = (if i < length xs then Inr (xs ! i) else Inl IndexError)"

text \<open>\<^verbatim>\<open>int(x)\<close> on a float truncates towards zero and raises on NaN and the infinities.\<close>

fun py_int :: "pyfloat \<Rightarrow> error + int" where
  "py_int (Finite a) = Inr (if 0 \<le> a then \<lfloor>a\<rfloor> else \<lceil>a\<rceil>)"
| "py_int NaN = Inl ValueError"
| "py_int PosInf = Inl OverflowError"
| "py_int NegInf = Inl OverflowError"

section \<open>Input Collector: the sidebar widgets (lines 22--55)\<close>

text \<open>
  What the widgets return in one run of the script. The float widgets return floats, the
  two integer widgets (\<^verbatim>\<open>number_input(..., 0, 1000, 30)\<close>) return Python ints.
\<close>

record inputs =
  machine_model :: string
  temp :: pyfloat
  vibration :: pyfloat
  rot_speed :: pyfloat
  voltage :: pyfloat
  torque :: pyfloat
  oil_viscosity :: pyfloat
  humidity :: pyfloat
  operator_exp :: string
  last_service_days :: int
  fault_code :: string
  working_hours :: int
  predict_button :: bool

definition in_range :: "real \<Rightarrow> real \<Rightarrow> pyfloat \<Rightarrow> bool" where
  "in_range lo hi x = (float_le (Finite lo) x \<and> float_le x (Finite hi))"

text \<open>
  The domains of section 3 of the specification, which are the options and bounds the
  widgets are created with: a selectbox returns one of its options, a number input a
  value between its minimum and its maximum.
\<close>

definition valid_inputs :: "inputs \<Rightarrow> bool" where
  "valid_inputs u =
     (machine_model u \<in> set [''Model_A'', ''Model_B'', ''Model_C''] \<and>
      in_range 0 150 (temp u) \<and>
      in_range 0 20 (vibration u) \<and>
      in_range 0 6000 (rot_speed u) \<and>
      in_range 0 300 (voltage u) \<and>
      in_range 0 200 (torque u) \<and>
      in_range 0 100 (oil_viscosity u) \<and>
      in_range 0 100 (humidity u) \<and>
      operator_exp u \<in> set [''Junior'', ''Mid'', ''Senior''] \<and>
      0 \<le> last_service_days u \<and> last_service_days u \<le> 1000 \<and>
      fault_code u \<in> set [''None'', ''E101'', ''E202''] \<and>
      0 \<le> working_hours u \<and> working_hours u \<le> 50000)"

section \<open>Feature Engineer (lines 67--94)\<close>

definition stress_index :: "(pyfloat \<Rightarrow> pyfloat \<Rightarrow> pyfloat) \<Rightarrow> inputs \<Rightarrow> pyfloat" where
  "stress_index fmul u = fmul (torque u) (vibration u)"

definition rolling_avg_temp :: "inputs \<Rightarrow> pyfloat" where
  "rolling_avg_temp u = temp u"

definition machine_age :: "inputs \<Rightarrow> int" where
  "machine_age u = working_hours u"

definition exp_map :: "string \<rightharpoonup> int" where
  "exp_map = [''Junior'' \<mapsto> 1, ''Mid'' \<mapsto> 2, ''Senior'' \<mapsto> 3]"

text \<open>\<^verbatim>\<open>exp_map[operator_exp]\<close>: a missing key raises KeyError.\<close>

definition operator_level :: "string \<Rightarrow> error + int" where
  "operator_level k = (case exp_map k of None \<Rightarrow> Inl (KeyError k) | Some l \<Rightarrow> Inr l)"

text \<open>
  A data frame built from a dict of lists: the columns in insertion order, each with its
  list of cells (here always one cell, the single row).
\<close>

datatype cell = CStr string | CFloat pyfloat | CInt int

type_synonym dataframe = "(string \<times> cell list) list"

definition columns :: "dataframe \<Rightarrow> string list" where
  "columns df = map fst df"

definition column :: "dataframe \<Rightarrow> string \<Rightarrow> cell list option" where
  "column df name = map_of df name"

definition input_df :: "(pyfloat \<Rightarrow> pyfloat \<Rightarrow> pyfloat) \<Rightarrow> inputs \<Rightarrow> error + dataframe" where
  "input_df fmul u =
     (case operator_level (operator_exp u) of
        Inl e \<Rightarrow> Inl e
      | Inr lvl \<Rightarrow> Inr
         [(''Machine_Model'', [CStr (machine_model u)]),
          (''Avg_Temperature'', [CFloat (temp u)]),
          (''Vibration_Level'', [CFloat (vibration u)]),
          (''Rotating_Speed'', [CFloat (rot_speed u)]),
          (''Voltage_Fluctuation'', [CFloat (voltage u)]),
          (''Torque_Nm'', [CFloat (torque u)]),
          (''Oil_Viscosity'', [CFloat (oil_viscosity u)]),
          (''Ambient_Humidity'', [CFloat (humidity u)]),
          (''Operator_Experience'', [CStr (operator_exp u)]),
          (''Last_Service_Days'', [CInt (last_service_days u)]),
          (''Fault_Code'', [CStr (fault_code u)]),
          (''Working_Hours_Total'', [CInt (working_hours u)]),
          (''Rolling_Avg_Temp'', [CFloat (rolling_avg_temp u)]),
          (''Stress_Index'', [CFloat (stress_index fmul u)]),
          (''Machine_Age'', [CInt (machine_age u)]),
          (''Operator_Experience_Level'', [CInt lvl])])"

text \<open>
  The Observation of section 3 of the specification, written from its table: the sixteen
  field names in the table's order.
\<close>

definition observation_fields :: "string list" where
  "observation_fields =
     [''Machine_Model'', ''Avg_Temperature'', ''Vibration_Level'', ''Rotating_Speed'',
      ''Voltage_Fluctuation'', ''Torque_Nm'', ''Oil_Viscosity'', ''Ambient_Humidity'',
      ''Operator_Experience'', ''Last_Service_Days'', ''Fault_Code'', ''Working_Hours_Total'',
      ''Rolling_Avg_Temp'', ''Stress_Index'', ''Machine_Age'', ''Operator_Experience_Level'']"

section \<open>The artifacts and the libraries, as black boxes\<close>

text \<open>
  The three pickled artifacts are not part of the source: each is an object whose methods
  are parameters of the model, and every method may raise. \<open>'x\<close> is the type of the
  transformed feature matrix \<^verbatim>\<open>X_input\<close>. The regressor's method is \<^verbatim>\<open>predict\<close> in the
  source as well; it is named \<open>predict_rul\<close> here because a field name is global.
\<close>

record 'x classifier =
  predict_proba :: "'x \<Rightarrow> error + pyfloat list list"
  predict :: "'x \<Rightarrow> error + int list"

record 'x regressor =
  predict_rul :: "'x \<Rightarrow> error + pyfloat list"

record 'x preprocessor =
  transform :: "dataframe \<Rightarrow> error + 'x"
  get_feature_names_out :: "error + string list"

text \<open>
  What \<^verbatim>\<open>joblib.load\<close> returns for each of the three file names: the object, or the
  exception of a missing or unreadable file.
\<close>

record 'x files =
  best_model_pkl :: "error + 'x classifier"
  rul_model_pkl :: "error + 'x regressor"
  preprocessor_pkl :: "error + 'x preprocessor"

text \<open>
  The calls into shap and matplotlib inside the \<^verbatim>\<open>try\<close> block: building the explainer,
  computing the attribution values, and drawing the waterfall plot of
  \<^verbatim>\<open>shap.Explanation(...)\<close> on a fresh figure. \<open>'e\<close> is the explainer, \<open>'v\<close> the
  attribution values, \<open>'g\<close> the figure.
\<close>

record ('x, 'e, 'v, 'g) shap =
  TreeExplainer :: "'x classifier \<Rightarrow> error + 'e"
  shap_values :: "'e \<Rightarrow> 'x \<Rightarrow> error + 'v"
  waterfall :: "'v \<Rightarrow> 'e \<Rightarrow> 'x \<Rightarrow> string list \<Rightarrow> error + 'g"

section \<open>What a run of the script does: its trace\<close>

text \<open>
  A run is recorded as the list of its effects, in order: the artifacts that
  \<^verbatim>\<open>joblib.load\<close> returned and the Streamlit elements placed on the page, each with the
  container it was placed in (the page, the sidebar, a tab, or one of the two columns of
  the first tab). Of what Streamlit does with the arguments of a call, the one check that
  a value computed by the program can fail is modelled: the range check of
  \<^verbatim>\<open>st.progress\<close>.
\<close>

datatype place = Page | Sidebar | Tab1 | Tab1Col1 | Tab1Col2 | Tab2 | Tab3

text \<open>
  The two formatted metric texts keep their number: \<open>Percent2 p\<close> is
  \<^verbatim>\<open>f"{p:.2%}"\<close> and \<open>Hours0 r\<close> is \<^verbatim>\<open>f"{r:.0f} hrs"\<close>.
\<close>

datatype metric_text = Percent2 pyfloat | Hours0 pyfloat

datatype 'g element =
    PageConfig string string
  | Title string
  | Header string
  | Subheader string
  | Write string
  | Markdown string
  | Selectbox string "string list"
  | FloatInput string real real real
  | IntInput string int int int
  | Button string
  | Tabs "string list"
  | Columns nat
  | Metric string metric_text
  | Progress int
  | Success string
  | Error string
  | Warning string
  | Info string
  | Pyplot 'g

datatype 'g event = Loaded string | Render place "'g element"

text \<open>
  A block of statements yields the effects it had and, if an exception left it, that
  exception. Sequencing stops at the first exception and keeps what was already done.
\<close>

type_synonym 'g run = "'g event list \<times> error option"

definition and_then :: "'g run \<Rightarrow> 'g run \<Rightarrow> 'g run" where
  "and_then r k = (case snd r of Some e \<Rightarrow> r | None \<Rightarrow> (fst r @ fst k, snd k))"

definition degree_sign :: string where
  "degree_sign = [CHR 0xC2, CHR 0xB0]"

definition bullet :: string where
  "bullet = [CHR 0xE2, CHR 0x80, CHR 0xA2]"

subsection \<open>Artifact loading (lines 10--12)\<close>

definition load_artifacts ::
  "'x files \<Rightarrow> 'g event list \<times> (error + 'x classifier \<times> 'x regressor \<times> 'x preprocessor)" where
  "load_artifacts fs =
     (case best_model_pkl fs of
        Inl e \<Rightarrow> ([], Inl e)
      | Inr model \<Rightarrow>
     (case rul_model_pkl fs of
        Inl e \<Rightarrow> ([Loaded ''best_model.pkl''], Inl e)
      | Inr rul_model \<Rightarrow>
     (case preprocessor_pkl fs of
        Inl e \<Rightarrow> ([Loaded ''best_model.pkl'', Loaded ''rul_model.pkl''], Inl e)
      | Inr preprocessor \<Rightarrow>
          ([Loaded ''best_model.pkl'', Loaded ''rul_model.pkl'', Loaded ''preprocessor.pkl''],
           Inr (model, rul_model, preprocessor)))))"

subsection \<open>Page head, sidebar and tabs (lines 14--60)\<close>

definition page_head :: "'g event list" where
  "page_head =
     [Render Page (PageConfig ''Predictive Maintenance System'' ''wide''),
      Render Page (Title ''Predictive Maintenance System''),
      Render Page (Write ''AI-driven industrial machine health monitoring and failure prediction.'')]"

definition sidebar :: "'g event list" where
  "sidebar =
     [Render Sidebar (Header ''Machine Inputs''),
      Render Sidebar (Selectbox ''Machine Model'' [''Model_A'', ''Model_B'', ''Model_C'']),
      Render Sidebar (FloatInput (''Average Temperature ('' @ degree_sign @ ''C)'') 0 150 50),
      Render Sidebar (FloatInput ''Vibration Level'' 0 20 2),
      Render Sidebar (FloatInput ''Rotating Speed (RPM)'' 0 6000 1500),
      Render Sidebar (FloatInput ''Voltage Fluctuation'' 0 300 5),
      Render Sidebar (FloatInput ''Torque (Nm)'' 0 200 100),
      Render Sidebar (FloatInput ''Oil Viscosity'' 0 100 10),
      Render Sidebar (FloatInput ''Ambient Humidity (%)'' 0 100 40),
      Render Sidebar (Selectbox ''Operator Experience'' [''Junior'', ''Mid'', ''Senior'']),
      Render Sidebar (IntInput ''Days Since Last Service'' 0 1000 30),
      Render Sidebar (Selectbox ''Fault Code'' [''None'', ''E101'', ''E202'']),
      Render Sidebar (IntInput ''Total Working Hours'' 0 50000 1000),
      Render Sidebar (Button ''Predict Machine Health'')]"

definition tabs :: "'g event list" where
  "tabs = [Render Page (Tabs [''Overview'', ''Explainability'', ''Model Info''])]"

subsection \<open>Inference Invoker (lines 99--106)\<close>

text \<open>
  The transformed matrix and the three predictions, or the first exception: of the
  transform, of a model call, or of an index into its result.
\<close>

definition inference ::
  "'x classifier \<Rightarrow> 'x regressor \<Rightarrow> 'x preprocessor \<Rightarrow> dataframe \<Rightarrow>
     error + 'x \<times> pyfloat \<times> int \<times> pyfloat" where
  "inference model rul_model preprocessor df =
     (case transform preprocessor df of Inl e \<Rightarrow> Inl e | Inr X_input \<Rightarrow>
     (case predict_proba model X_input of Inl e \<Rightarrow> Inl e | Inr proba \<Rightarrow>
     (case py_index proba 0 of Inl e \<Rightarrow> Inl e | Inr row \<Rightarrow>
     (case py_index row 1 of Inl e \<Rightarrow> Inl e | Inr probability \<Rightarrow>
     (case predict model X_input of Inl e \<Rightarrow> Inl e | Inr classes \<Rightarrow>
     (case py_index classes 0 of Inl e \<Rightarrow> Inl e | Inr predicted_class \<Rightarrow>
     (case predict_rul rul_model X_input of Inl e \<Rightarrow> Inl e | Inr ruls \<Rightarrow>
     (case py_index ruls 0 of Inl e \<Rightarrow> Inl e | Inr rul_prediction \<Rightarrow>
        Inr (X_input, probability, predicted_class, rul_prediction)))))))))"

subsection \<open>Presenter, first tab (lines 111--136)\<close>

definition health_status :: "int \<Rightarrow> 'g element" where
  "health_status predicted_class =
     (if predicted_class = 0 then Success ''Healthy - No immediate maintenance required.''
      else Error ''High Risk of Failure - Immediate maintenance required.'')"

definition rul_advisory :: "pyfloat \<Rightarrow> 'g element" where
  "rul_advisory rul_prediction =
     (if float_gt rul_prediction (Finite 1000) then Info ''Machine has sufficient remaining life.''
      else if float_gt rul_prediction (Finite 300) then Warning ''Preventive maintenance recommended soon.''
      else Error ''Remaining useful life critically low.'')"

text \<open>
  Two steps of the tab can raise, both in line 118: \<^verbatim>\<open>int(probability * 100)\<close> on NaN or
  an infinity, and \<^verbatim>\<open>st.progress\<close>, which accepts an int from 0 to 100 and raises for
  any other. What was placed before stays on the page; the rest of the tab, and of the
  script, is not reached.
\<close>

definition overview_tab ::
  "(pyfloat \<Rightarrow> pyfloat \<Rightarrow> pyfloat) \<Rightarrow> pyfloat \<Rightarrow> int \<Rightarrow> pyfloat \<Rightarrow> 'g run" where
  "overview_tab fmul probability predicted_class rul_prediction =
     (case py_int (fmul probability (Finite 100)) of
        Inl e \<Rightarrow>
          ([Render Tab1 (Columns 2),
            Render Tab1Col1 (Subheader ''Failure Probability''),
            Render Tab1Col1 (Metric ''Probability of Failure (Next 24H)'' (Percent2 probability))],
           Some e)
      | Inr percent \<Rightarrow>
          if 0 \<le> percent \<and> percent \<le> 100
          then
            ([Render Tab1 (Columns 2),
              Render Tab1Col1 (Subheader ''Failure Probability''),
              Render Tab1Col1 (Metric ''Probability of Failure (Next 24H)'' (Percent2 probability)),
              Render Tab1Col1 (Progress percent),
              Render Tab1Col2 (Subheader ''Remaining Useful Life''),
              Render Tab1Col2 (Metric ''Estimated Remaining Hours'' (Hours0 rul_prediction)),
              Render Tab1 (Subheader ''Machine Health Status''),
              Render Tab1 (health_status predicted_class),
              Render Tab1 (rul_advisory rul_prediction)],
             None)
          else
            ([Render Tab1 (Columns 2),
              Render Tab1Col1 (Subheader ''Failure Probability''),
              Render Tab1Col1 (Metric ''Probability of Failure (Next 24H)'' (Percent2 probability))],
             Some StreamlitAPIException))"

subsection \<open>Explainer and its panel, second tab (lines 141--164)\<close>

text \<open>The body of the \<^verbatim>\<open>try\<close> block up to, not including, \<^verbatim>\<open>st.pyplot(fig)\<close>.\<close>

definition explain ::
  "('x, 'e, 'v, 'g) shap \<Rightarrow> 'x classifier \<Rightarrow> 'x preprocessor \<Rightarrow> 'x \<Rightarrow> error + 'g" where
  "explain lib model preprocessor X_input =
     (case TreeExplainer lib model of Inl e \<Rightarrow> Inl e | Inr explainer \<Rightarrow>
     (case shap_values lib explainer X_input of Inl e \<Rightarrow> Inl e | Inr vals \<Rightarrow>
     (case get_feature_names_out preprocessor of Inl e \<Rightarrow> Inl e | Inr names \<Rightarrow>
        waterfall lib vals explainer X_input names)))"

definition fallback_text :: string where
  "fallback_text = ''SHAP explanation not available for this model type.''"

text \<open>\<^verbatim>\<open>except Exception\<close>: whatever was raised, the fallback text is written.\<close>

definition explainability_tab ::
  "('x, 'e, 'v, 'g) shap \<Rightarrow> 'x classifier \<Rightarrow> 'x preprocessor \<Rightarrow> 'x \<Rightarrow> 'g event list" where
  "explainability_tab lib model preprocessor X_input =
     Render Tab2 (Subheader ''Prediction Explanation (SHAP)'') #
     (case explain lib model preprocessor X_input of
        Inr fig \<Rightarrow> [Render Tab2 (Pyplot fig)]
      | Inl e \<Rightarrow> [Render Tab2 (Write fallback_text)])"

subsection \<open>Third tab (lines 169--177), the idle message and the footer (lines 180--183)\<close>

definition model_info_tab :: "'g event list" where
  "model_info_tab =
     [Render Tab3 (Subheader ''System Summary''),
      Render Tab3 (Write (bullet @ '' Classification model predicts probability of machine failure within the next 24 hours.'')),
      Render Tab3 (Write (bullet @ '' Regression model estimates Remaining Useful Life (RUL).'')),
      Render Tab3 (Write (bullet @ '' Feature engineering includes Stress Index and rolling metrics.'')),
      Render Tab3 (Write (bullet @ '' Health status is determined using the model's predicted class output.'')),
      Render Tab3 (Write (bullet @ '' SHAP is used for local explainability of predictions.''))]"

definition idle :: "'g event list" where
  "idle = [Render Page (Info ''Enter machine parameters and click 'Predict Machine Health'.'')]"

definition footer :: "'g event list" where
  "footer =
     [Render Page (Markdown ''---''),
      Render Page (Write ''Industrial Predictive Maintenance powered by Machine Learning.'')]"

subsection \<open>The prediction cycle (lines 62--177) and the whole script\<close>

definition predict_cycle ::
  "(pyfloat \<Rightarrow> pyfloat \<Rightarrow> pyfloat) \<Rightarrow> ('x, 'e, 'v, 'g) shap \<Rightarrow>
     'x classifier \<Rightarrow> 'x regressor \<Rightarrow> 'x preprocessor \<Rightarrow> inputs \<Rightarrow> 'g run" where
  "predict_cycle fmul lib model rul_model preprocessor u =
     (case input_df fmul u of Inl e \<Rightarrow> ([], Some e) | Inr df \<Rightarrow>
     (case inference model rul_model preprocessor df of
        Inl e \<Rightarrow> ([], Some e)
      | Inr (X_input, probability, predicted_class, rul_prediction) \<Rightarrow>
          and_then (overview_tab fmul probability predicted_class rul_prediction)
            (explainability_tab lib model preprocessor X_input @ model_info_tab, None)))"

definition run_script ::
  "(pyfloat \<Rightarrow> pyfloat \<Rightarrow> pyfloat) \<Rightarrow> ('x, 'e, 'v, 'g) shap \<Rightarrow> 'x files \<Rightarrow> inputs \<Rightarrow> 'g run" where
  "run_script fmul lib fs u =
     (case load_artifacts fs of
        (loaded, Inl e) \<Rightarrow> (loaded, Some e)
      | (loaded, Inr (model, rul_model, preprocessor)) \<Rightarrow>
          and_then (loaded @ page_head @ sidebar @ tabs, None)
            (if predict_button u
             then and_then (predict_cycle fmul lib model rul_model preprocessor u) (footer, None)
             else (idle @ footer, None)))"

section \<open>Properties of the black boxes, and concrete ones for the examples\<close>

text \<open>
  Modelled from the spec: the fitted preprocessor itself is not in the source. Section 4.2
  says that a preprocessor whose expected columns are not matched by the Observation fails
  with a schema error; \<open>schema_checking\<close> states that of a preprocessor and a list of
  expected column names, a column being unmatched when the frame does not have it.
\<close>

definition missing_columns :: "string list \<Rightarrow> dataframe \<Rightarrow> bool" where
  "missing_columns expected df = (\<not> set expected \<subseteq> set (columns df))"

definition schema_checking :: "'x preprocessor \<Rightarrow> string list \<Rightarrow> bool" where
  "schema_checking preprocessor expected =
     (\<forall>df. missing_columns expected df \<longrightarrow> (\<exists>msg. transform preprocessor df = Inl (Raised msg)))"

text \<open>
  Modelled from the spec: the fitted classifier itself is not in the source. Section 2
  calls it a binary classifier whose \<^verbatim>\<open>predict_proba\<close> returns probabilities and whose
  \<^verbatim>\<open>predict\<close> returns a label, and section 4.2 gives the labels as 0 and 1:
  \<open>binary_classifier\<close> states that of a classifier.
\<close>

definition binary_classifier :: "'x classifier \<Rightarrow> bool" where
  "binary_classifier model =
     (\<forall>X. (\<forall>proba. predict_proba model X = Inr proba \<longrightarrow>
                (\<forall>row \<in> set proba. \<forall>q \<in> set row. in_range 0 1 q)) \<and>
          (\<forall>classes. predict model X = Inr classes \<longrightarrow> (\<forall>k \<in> set classes. k \<in> {0, 1})))"

text \<open>
  The script is executed from its first line once for the page load and once more for
  every interaction: \<^verbatim>\<open>st.sidebar.button\<close> returns True only in the execution that a
  click starts, so a prediction is always made by an execution after the first. A session
  is the list of these executions, each with the files and the widget values as they are
  at its time; an exception ends one execution, not the session.
\<close>

definition session ::
  "(pyfloat \<Rightarrow> pyfloat \<Rightarrow> pyfloat) \<Rightarrow> ('x, 'e, 'v, 'g) shap \<Rightarrow> ('x files \<times> inputs) list \<Rightarrow>
     'g run list" where
  "session fmul lib steps = map (\<lambda>(fs, u). run_script fmul lib fs u) steps"

definition session_trace ::
  "(pyfloat \<Rightarrow> pyfloat \<Rightarrow> pyfloat) \<Rightarrow> ('x, 'e, 'v, 'g) shap \<Rightarrow> ('x files \<times> inputs) list \<Rightarrow>
     'g event list" where
  "session_trace fmul lib steps = concat (map fst (session fmul lib steps))"

fun is_load :: "'g event \<Rightarrow> bool" where
  "is_load (Loaded f) = True"
| "is_load (Render p el) = False"

text \<open>An element placed in one of the three tabs: everything a prediction cycle shows.\<close>

fun in_tabs :: "'g event \<Rightarrow> bool" where
  "in_tabs (Loaded f) = False"
| "in_tabs (Render p el) = (p \<noteq> Page \<and> p \<noteq> Sidebar)"

text \<open>
  The inputs of scenario 1 of section 8 of the specification, with the button pressed, and
  a multiplication for the examples: exact on finite values, which is what the runtime
  computes where the product is representable (100.0 * 2.0, 0.25 * 100).
\<close>

definition scenario1 :: inputs where
  "scenario1 =
     \<lparr>machine_model = ''Model_A'', temp = Finite 50, vibration = Finite 2,
      rot_speed = Finite 1500, voltage = Finite 5, torque = Finite 100,
      oil_viscosity = Finite 10, humidity = Finite 40, operator_exp = ''Senior'',
      last_service_days = 30, fault_code = ''None'', working_hours = 1000,
      predict_button = True\<rparr>"

fun exact_mul :: "pyfloat \<Rightarrow> pyfloat \<Rightarrow> pyfloat" where
  "exact_mul (Finite a) (Finite b) = Finite (a * b)"
| "exact_mul _ _ = NaN"

text \<open>
  Stub artifacts, as section 9 of the specification suggests for tests. The feature matrix
  of the stubs is the list of the frame's column names.
\<close>

definition stub_classifier :: "pyfloat \<Rightarrow> pyfloat \<Rightarrow> int \<Rightarrow> string list classifier" where
  "stub_classifier q p c =
     \<lparr>predict_proba = (\<lambda>X. Inr [[q, p]]), predict = (\<lambda>X. Inr [c])\<rparr>"

definition stub_regressor :: "pyfloat \<Rightarrow> string list regressor" where
  "stub_regressor r = \<lparr>predict_rul = (\<lambda>X. Inr [r])\<rparr>"

definition stub_preprocessor :: "string list \<Rightarrow> string list preprocessor" where
  "stub_preprocessor expected =
     \<lparr>transform = (\<lambda>df. if missing_columns expected df then Inl (Raised ''columns are missing'')
                         else Inr (columns df)),
      get_feature_names_out = Inr expected\<rparr>"

definition stub_files ::
  "pyfloat \<Rightarrow> pyfloat \<Rightarrow> int \<Rightarrow> pyfloat \<Rightarrow> string list \<Rightarrow> string list files" where
  "stub_files q p c r expected =
     \<lparr>best_model_pkl = Inr (stub_classifier q p c),
      rul_model_pkl = Inr (stub_regressor r),
      preprocessor_pkl = Inr (stub_preprocessor expected)\<rparr>"

text \<open>A shap that accepts no model (as for a classifier that is not tree based), and one that draws.\<close>

definition failing_shap :: "(string list, unit, unit, string) shap" where
  "failing_shap =
     \<lparr>TreeExplainer = (\<lambda>m. Inl (Raised ''Model type not yet supported by TreeExplainer'')),
      shap_values = (\<lambda>ex X. Inr ()),
      waterfall = (\<lambda>v ex X names. Inr ''figure'')\<rparr>"

definition drawing_shap :: "(string list, unit, unit, string) shap" where
  "drawing_shap =
     \<lparr>TreeExplainer = (\<lambda>m. Inr ()),
      shap_values = (\<lambda>ex X. Inr ()),
      waterfall = (\<lambda>v ex X names. Inr ''figure'')\<rparr>"

section \<open>The tiered advisory\<close>

lemma float_le_not_gt: "float_le x y \<Longrightarrow> \<not> float_gt x y"
  by (cases x; cases y) auto

lemma float_le_trans_fin: "float_le x (Finite a) \<Longrightarrow> a \<le> b \<Longrightarrow> float_le x (Finite b)"
  by (cases x) auto

text \<open>
  Claim C1. For every value of \<^verbatim>\<open>rul_prediction\<close>, the infinities and NaN included: above
  1000 the advisory is the information "sufficient remaining life"; above 300 and at most
  1000 it is the warning "preventive maintenance recommended soon"; at most 300 it is the
  error "critically low". The boundaries: 1000.0 is in the middle tier, 1000.01 in the
  upper one, 300.0 in the critical one.
\<close>

theorem rul_advisory_tiers:
  "(float_gt r (Finite 1000) \<longrightarrow>
      rul_advisory r = (Info ''Machine has sufficient remaining life.'' :: 'g element)) \<and>
   (float_gt r (Finite 300) \<and> float_le r (Finite 1000) \<longrightarrow>
      rul_advisory r = (Warning ''Preventive maintenance recommended soon.'' :: 'g element)) \<and>
   (float_le r (Finite 300) \<longrightarrow>
      rul_advisory r = (Error ''Remaining useful life critically low.'' :: 'g element)) \<and>
   rul_advisory (Finite 1000) = (Warning ''Preventive maintenance recommended soon.'' :: 'g element) \<and>
   rul_advisory (Finite 1000.01) = (Info ''Machine has sufficient remaining life.'' :: 'g element) \<and>
   rul_advisory (Finite 300) = (Error ''Remaining useful life critically low.'' :: 'g element)"
proof -
  have mid: "float_le r (Finite 1000) \<Longrightarrow> \<not> float_gt r (Finite 1000)"
    by (rule float_le_not_gt)
  have low: "float_le r (Finite 300) \<Longrightarrow> \<not> float_gt r (Finite 300) \<and> \<not> float_gt r (Finite 1000)"
    using float_le_not_gt float_le_trans_fin [of r 300 1000] by auto
  show ?thesis
    using mid low by (simp add: rul_advisory_def)
qed

theorem rul_advisory_tiers_witness:
  "float_gt (Finite 1500) (Finite 1000) \<and>
   rul_advisory (Finite 1500) = (Info ''Machine has sufficient remaining life.'' :: unit element) \<and>
   float_gt (Finite 500) (Finite 300) \<and> float_le (Finite 500) (Finite 1000) \<and>
   rul_advisory (Finite 500) = (Warning ''Preventive maintenance recommended soon.'' :: unit element) \<and>
   float_le (Finite 120) (Finite 300) \<and>
   rul_advisory (Finite 120) = (Error ''Remaining useful life critically low.'' :: unit element) \<and>
   float_le NegInf (Finite 300) \<and>
   rul_advisory NegInf = (Error ''Remaining useful life critically low.'' :: unit element)"
  using rul_advisory_tiers [of "Finite 1500", where ?'g = unit]
        rul_advisory_tiers [of "Finite 500", where ?'g = unit]
        rul_advisory_tiers [of "Finite 120", where ?'g = unit]
        rul_advisory_tiers [of NegInf, where ?'g = unit]
  by simp

text \<open>
  Every value but NaN satisfies one of the three conditions, so the three cases decide
  the advisory of every number.
\<close>

lemma tiers_exhaustive:
  "r \<noteq> NaN \<Longrightarrow>
     float_gt r (Finite 1000) \<or> (float_gt r (Finite 300) \<and> float_le r (Finite 1000)) \<or>
     float_le r (Finite 300)"
  by (cases r) auto

text \<open>
  NaN satisfies none of the three conditions; the \<^verbatim>\<open>else\<close> branch gives it the
  critical tier.
\<close>

lemma rul_advisory_nan: "rul_advisory NaN = (Error ''Remaining useful life critically low.'' :: 'g element)"
  by (simp add: rul_advisory_def)

section \<open>The engineered frame\<close>

lemma operator_level_cases:
  "k \<in> set [''Junior'', ''Mid'', ''Senior''] \<Longrightarrow>
     operator_level k = Inr (if k = ''Junior'' then 1 else if k = ''Mid'' then 2 else 3)"
  by (auto simp: operator_level_def exp_map_def)

lemma input_df_valid:
  assumes "valid_inputs u"
  shows "input_df fmul u = Inr
         [(''Machine_Model'', [CStr (machine_model u)]),
          (''Avg_Temperature'', [CFloat (temp u)]),
          (''Vibration_Level'', [CFloat (vibration u)]),
          (''Rotating_Speed'', [CFloat (rot_speed u)]),
          (''Voltage_Fluctuation'', [CFloat (voltage u)]),
          (''Torque_Nm'', [CFloat (torque u)]),
          (''Oil_Viscosity'', [CFloat (oil_viscosity u)]),
          (''Ambient_Humidity'', [CFloat (humidity u)]),
          (''Operator_Experience'', [CStr (operator_exp u)]),
          (''Last_Service_Days'', [CInt (last_service_days u)]),
          (''Fault_Code'', [CStr (fault_code u)]),
          (''Working_Hours_Total'', [CInt (working_hours u)]),
          (''Rolling_Avg_Temp'', [CFloat (temp u)]),
          (''Stress_Index'', [CFloat (fmul (torque u) (vibration u))]),
          (''Machine_Age'', [CInt (working_hours u)]),
          (''Operator_Experience_Level'',
             [CInt (if operator_exp u = ''Junior'' then 1 else if operator_exp u = ''Mid'' then 2 else 3)])]"
proof -
  from assms have "operator_exp u \<in> set [''Junior'', ''Mid'', ''Senior'']"
    unfolding valid_inputs_def by blast
  then show ?thesis
    unfolding input_df_def stress_index_def rolling_avg_temp_def machine_age_def
    by (simp only: operator_level_cases sum.case)
qed

lemma valid_scenario1: "valid_inputs scenario1"
  by (simp add: valid_inputs_def scenario1_def in_range_def)

lemma operator_level_outside:
  "k \<notin> set [''Junior'', ''Mid'', ''Senior''] \<Longrightarrow> operator_level k = Inl (KeyError k)"
  by (simp add: operator_level_def exp_map_def)

text \<open>
  Claim C2. For valid inputs the frame is built, and its column \<^verbatim>\<open>Stress_Index\<close> holds
  the product of the torque and the vibration level as the runtime computes it, with
  nothing applied to it afterwards.
\<close>

theorem stress_index_exact:
  "valid_inputs u \<Longrightarrow>
     \<exists>df. input_df fmul u = Inr df \<and>
          column df ''Stress_Index'' = Some [CFloat (fmul (torque u) (vibration u))]"
  by (simp add: input_df_valid column_def)

theorem stress_index_exact_witness:
  "valid_inputs scenario1 \<and>
   (\<exists>df. input_df exact_mul scenario1 = Inr df \<and>
         column df ''Stress_Index'' = Some [CFloat (Finite 200)])"
  using stress_index_exact [OF valid_scenario1, of exact_mul] valid_scenario1
  by (simp add: scenario1_def)

text \<open>
  Claim C3. The operator level is a function of the operator experience: Junior gives 1,
  Mid gives 2, Senior gives 3. Any other value raises KeyError: no level is produced and
  no frame is built. For valid inputs the frame's column
  \<^verbatim>\<open>Operator_Experience_Level\<close> holds the level of the mapping.
\<close>

theorem operator_level_mapping:
  "operator_level ''Junior'' = Inr 1 \<and>
   operator_level ''Mid'' = Inr 2 \<and>
   operator_level ''Senior'' = Inr 3 \<and>
   (k \<notin> set [''Junior'', ''Mid'', ''Senior''] \<longrightarrow>
      operator_level k = Inl (KeyError k) \<and>
      (operator_exp u = k \<longrightarrow> input_df fmul u = Inl (KeyError k))) \<and>
   (valid_inputs u \<longrightarrow>
      (\<exists>df. input_df fmul u = Inr df \<and>
        column df ''Operator_Experience_Level'' =
          Some [CInt (if operator_exp u = ''Junior'' then 1
                      else if operator_exp u = ''Mid'' then 2 else 3)]))"
proof -
  have known: "operator_level ''Junior'' = Inr 1 \<and> operator_level ''Mid'' = Inr 2 \<and>
      operator_level ''Senior'' = Inr 3"
    by (simp add: operator_level_def exp_map_def)
  have outside: "k \<notin> set [''Junior'', ''Mid'', ''Senior''] \<Longrightarrow> operator_exp u = k \<Longrightarrow>
      input_df fmul u = Inl (KeyError k)"
    using operator_level_outside [of k] by (simp add: input_df_def)
  have inside: "valid_inputs u \<Longrightarrow> \<exists>df. input_df fmul u = Inr df \<and>
        column df ''Operator_Experience_Level'' =
          Some [CInt (if operator_exp u = ''Junior'' then 1
                      else if operator_exp u = ''Mid'' then 2 else 3)]"
    by (simp add: input_df_valid column_def)
  show ?thesis
    using known outside inside operator_level_outside [of k] by blast
qed

theorem operator_level_mapping_witness:
  "''Expert'' \<notin> set [''Junior'', ''Mid'', ''Senior''] \<and>
   operator_level ''Expert'' = Inl (KeyError ''Expert'') \<and>
   input_df exact_mul (scenario1\<lparr>operator_exp := ''Expert''\<rparr>) = Inl (KeyError ''Expert'') \<and>
   (\<exists>df. input_df exact_mul scenario1 = Inr df \<and>
      column df ''Operator_Experience_Level'' = Some [CInt 3])"
proof -
  have "operator_exp scenario1 = ''Senior''"
    by (simp add: scenario1_def)
  then show ?thesis
    using operator_level_mapping [of "''Expert''" "scenario1\<lparr>operator_exp := ''Expert''\<rparr>" exact_mul]
          operator_level_mapping [of "''Expert''" scenario1 exact_mul]
          valid_scenario1
    by simp
qed

text \<open>
  Claim C4. For valid inputs, \<^verbatim>\<open>Machine_Age\<close> is the total of working hours and
  \<^verbatim>\<open>Rolling_Avg_Temp\<close> is the average temperature: each derived column holds the same
  cell as the raw column it copies.
\<close>

theorem derived_copies:
  "valid_inputs u \<Longrightarrow>
     \<exists>df. input_df fmul u = Inr df \<and>
          column df ''Machine_Age'' = Some [CInt (working_hours u)] \<and>
          column df ''Machine_Age'' = column df ''Working_Hours_Total'' \<and>
          column df ''Rolling_Avg_Temp'' = Some [CFloat (temp u)] \<and>
          column df ''Rolling_Avg_Temp'' = column df ''Avg_Temperature''"
  by (simp add: input_df_valid column_def)

theorem derived_copies_witness:
  "valid_inputs scenario1 \<and>
   (\<exists>df. input_df exact_mul scenario1 = Inr df \<and>
         column df ''Machine_Age'' = Some [CInt 1000] \<and>
         column df ''Machine_Age'' = column df ''Working_Hours_Total'' \<and>
         column df ''Rolling_Avg_Temp'' = Some [CFloat (Finite 50)] \<and>
         column df ''Rolling_Avg_Temp'' = column df ''Avg_Temperature'')"
  using derived_copies [OF valid_scenario1, of exact_mul] valid_scenario1
  by (simp add: scenario1_def)

text \<open>
  Claim C5. For valid inputs the Feature Engineer returns a frame of exactly the sixteen
  fields of section 3, named and ordered as in its table, one cell each: the twelve raw
  fields hold the inputs and the four derived fields follow the formulas of section 3.
  \<open>input_df\<close> is a function of the raw inputs (and of the runtime's multiplication) alone
  and has no trace: lines 67 to 94 read and write nothing else.
\<close>

theorem observation_record:
  assumes "valid_inputs u"
  shows "\<exists>df. input_df fmul u = Inr df \<and>
           columns df = observation_fields \<and>
           length (columns df) = 16 \<and>
           distinct (columns df) \<and>
           list_all (\<lambda>c. length (snd c) = 1) df \<and>
           column df ''Machine_Model'' = Some [CStr (machine_model u)] \<and>
           column df ''Avg_Temperature'' = Some [CFloat (temp u)] \<and>
           column df ''Vibration_Level'' = Some [CFloat (vibration u)] \<and>
           column df ''Rotating_Speed'' = Some [CFloat (rot_speed u)] \<and>
           column df ''Voltage_Fluctuation'' = Some [CFloat (voltage u)] \<and>
           column df ''Torque_Nm'' = Some [CFloat (torque u)] \<and>
           column df ''Oil_Viscosity'' = Some [CFloat (oil_viscosity u)] \<and>
           column df ''Ambient_Humidity'' = Some [CFloat (humidity u)] \<and>
           column df ''Operator_Experience'' = Some [CStr (operator_exp u)] \<and>
           column df ''Last_Service_Days'' = Some [CInt (last_service_days u)] \<and>
           column df ''Fault_Code'' = Some [CStr (fault_code u)] \<and>
           column df ''Working_Hours_Total'' = Some [CInt (working_hours u)] \<and>
           column df ''Rolling_Avg_Temp'' = Some [CFloat (temp u)] \<and>
           column df ''Stress_Index'' = Some [CFloat (fmul (torque u) (vibration u))] \<and>
           column df ''Machine_Age'' = Some [CInt (working_hours u)] \<and>
           column df ''Operator_Experience_Level'' =
             Some [CInt (if operator_exp u = ''Junior'' then 1
                         else if operator_exp u = ''Mid'' then 2 else 3)]"
  by (simp add: input_df_valid [OF assms] column_def columns_def observation_fields_def)

theorem observation_record_witness:
  "valid_inputs scenario1 \<and>
   (\<exists>df. input_df exact_mul scenario1 = Inr df \<and>
      columns df = observation_fields \<and>
      length (columns df) = 16 \<and>
      distinct (columns df) \<and>
      column df ''Machine_Model'' = Some [CStr ''Model_A''] \<and>
      column df ''Last_Service_Days'' = Some [CInt 30] \<and>
      column df ''Rolling_Avg_Temp'' = Some [CFloat (Finite 50)] \<and>
      column df ''Stress_Index'' = Some [CFloat (Finite 200)] \<and>
      column df ''Machine_Age'' = Some [CInt 1000] \<and>
      column df ''Operator_Experience_Level'' = Some [CInt 3])"
proof -
  obtain df where "input_df exact_mul scenario1 = Inr df \<and>
      columns df = observation_fields \<and>
      length (columns df) = 16 \<and>
      distinct (columns df) \<and>
      column df ''Machine_Model'' = Some [CStr (machine_model scenario1)] \<and>
      column df ''Last_Service_Days'' = Some [CInt (last_service_days scenario1)] \<and>
      column df ''Rolling_Avg_Temp'' = Some [CFloat (temp scenario1)] \<and>
      column df ''Stress_Index'' = Some [CFloat (exact_mul (torque scenario1) (vibration scenario1))] \<and>
      column df ''Machine_Age'' = Some [CInt (working_hours scenario1)] \<and>
      column df ''Operator_Experience_Level'' =
        Some [CInt (if operator_exp scenario1 = ''Junior'' then 1
                    else if operator_exp scenario1 = ''Mid'' then 2 else 3)]"
    using observation_record [OF valid_scenario1, of exact_mul] by blast
  moreover have "machine_model scenario1 = ''Model_A'' \<and> last_service_days scenario1 = 30 \<and>
      temp scenario1 = Finite 50 \<and> torque scenario1 = Finite 100 \<and>
      vibration scenario1 = Finite 2 \<and> working_hours scenario1 = 1000 \<and>
      operator_exp scenario1 = ''Senior''"
    by (simp add: scenario1_def)
  ultimately have "input_df exact_mul scenario1 = Inr df \<and>
      columns df = observation_fields \<and>
      length (columns df) = 16 \<and>
      distinct (columns df) \<and>
      column df ''Machine_Model'' = Some [CStr ''Model_A''] \<and>
      column df ''Last_Service_Days'' = Some [CInt 30] \<and>
      column df ''Rolling_Avg_Temp'' = Some [CFloat (Finite 50)] \<and>
      column df ''Stress_Index'' = Some [CFloat (Finite 200)] \<and>
      column df ''Machine_Age'' = Some [CInt 1000] \<and>
      column df ''Operator_Experience_Level'' = Some [CInt 3]"
    by (simp add: observation_fields_def)
  then show ?thesis
    using valid_scenario1 by blast
qed

section \<open>The prediction cycle\<close>

lemma transform_failure:
  "transform preprocessor df = Inl e \<Longrightarrow> inference model rul_model preprocessor df = Inl e"
  by (simp add: inference_def)

lemma cycle_after_inference:
  assumes "input_df fmul u = Inr df"
    and "inference model rul_model preprocessor df = Inr (X, p, c, r)"
  shows "predict_cycle fmul lib model rul_model preprocessor u =
           and_then (overview_tab fmul p c r)
             (explainability_tab lib model preprocessor X @ model_info_tab, None)"
  using assms by (simp add: predict_cycle_def)

lemma cycle_inference_failure:
  assumes "input_df fmul u = Inr df"
    and "inference model rul_model preprocessor df = Inl e"
  shows "predict_cycle fmul lib model rul_model preprocessor u = ([], Some e)"
  using assms by (simp add: predict_cycle_def)

lemma tree_explainer_failure:
  "TreeExplainer lib model = Inl e \<Longrightarrow> explain lib model preprocessor X = Inl e"
  by (simp add: explain_def)

lemma overview_complete:
  assumes "py_int (fmul p (Finite 100)) = Inr pct" and "0 \<le> pct" and "pct \<le> 100"
  shows "overview_tab fmul p c r =
           ([Render Tab1 (Columns 2),
             Render Tab1Col1 (Subheader ''Failure Probability''),
             Render Tab1Col1 (Metric ''Probability of Failure (Next 24H)'' (Percent2 p)),
             Render Tab1Col1 (Progress pct),
             Render Tab1Col2 (Subheader ''Remaining Useful Life''),
             Render Tab1Col2 (Metric ''Estimated Remaining Hours'' (Hours0 r)),
             Render Tab1 (Subheader ''Machine Health Status''),
             Render Tab1 (health_status c),
             Render Tab1 (rul_advisory r)],
            None)"
  using assms by (simp add: overview_tab_def)

lemma overview_status:
  "snd (overview_tab fmul p c r) =
     (case py_int (fmul p (Finite 100)) of
        Inl e \<Rightarrow> Some e
      | Inr pct \<Rightarrow> if 0 \<le> pct \<and> pct \<le> 100 then None else Some StreamlitAPIException)"
  by (simp add: overview_tab_def split: sum.splits)

text \<open>A first tab that is left by an exception holds the three elements placed before line 118.\<close>

lemma overview_aborted:
  "snd (overview_tab fmul p c r) \<noteq> None \<Longrightarrow>
     fst (overview_tab fmul p c r) =
       [Render Tab1 (Columns 2),
        Render Tab1Col1 (Subheader ''Failure Probability''),
        Render Tab1Col1 (Metric ''Probability of Failure (Next 24H)'' (Percent2 p))]"
  by (auto simp: overview_tab_def split: sum.splits if_splits)

lemma cycle_status:
  "snd (predict_cycle fmul lib model rul_model preprocessor u) =
     (case input_df fmul u of
        Inl e \<Rightarrow> Some e
      | Inr df \<Rightarrow>
         (case inference model rul_model preprocessor df of
            Inl e \<Rightarrow> Some e
          | Inr (X, p, c, r) \<Rightarrow> snd (overview_tab fmul p c r :: unit run)))"
  by (simp add: predict_cycle_def and_then_def overview_status split: sum.splits option.splits)

lemma cycle_status_without_explainer:
  "snd (predict_cycle fmul lib model rul_model preprocessor u) =
   snd (predict_cycle fmul lib' model rul_model preprocessor u)"
  by (simp only: cycle_status)

lemma cycle_complete:
  assumes "input_df fmul u = Inr df"
    and "inference model rul_model preprocessor df = Inr (X, p, c, r)"
    and "py_int (fmul p (Finite 100)) = Inr pct" and "0 \<le> pct" and "pct \<le> 100"
  shows "predict_cycle fmul lib model rul_model preprocessor u =
           ([Render Tab1 (Columns 2),
             Render Tab1Col1 (Subheader ''Failure Probability''),
             Render Tab1Col1 (Metric ''Probability of Failure (Next 24H)'' (Percent2 p)),
             Render Tab1Col1 (Progress pct),
             Render Tab1Col2 (Subheader ''Remaining Useful Life''),
             Render Tab1Col2 (Metric ''Estimated Remaining Hours'' (Hours0 r)),
             Render Tab1 (Subheader ''Machine Health Status''),
             Render Tab1 (health_status c),
             Render Tab1 (rul_advisory r)]
            @ explainability_tab lib model preprocessor X @ model_info_tab,
            None)"
  by (simp add: cycle_after_inference [OF assms(1,2)]
      overview_complete [where fmul = fmul and p = p and pct = pct, OF assms(3,4,5)]
      and_then_def)

text \<open>
  Claim C6. Let the cycle reach the second tab: the Inference Invoker returned and line
  118 did not raise (\<^verbatim>\<open>int(probability * 100)\<close> is an int from 0 to 100). When the
  attribution computation then raises (at \<^verbatim>\<open>shap.TreeExplainer(model)\<close> for a classifier
  it does not accept, or at any later step of the \<^verbatim>\<open>try\<close> block), the exception is
  caught in place: the cycle ends without an exception, the first tab shows the failure
  probability, the health status and the remaining useful life with its advisory, and the
  second tab shows the fallback text under its heading. By
  \<open>cycle_status_without_explainer\<close> the exception state of a cycle never depends on
  the explainer.
\<close>

theorem explanation_failure_is_not_fatal:
  assumes "input_df fmul u = Inr df"
    and "inference model rul_model preprocessor df = Inr (X, p, c, r)"
    and "py_int (fmul p (Finite 100)) = Inr pct"
    and "0 \<le> pct" and "pct \<le> 100"
    and "explain lib model preprocessor X = Inl e"
  shows "predict_cycle fmul lib model rul_model preprocessor u =
           ([Render Tab1 (Columns 2),
             Render Tab1Col1 (Subheader ''Failure Probability''),
             Render Tab1Col1 (Metric ''Probability of Failure (Next 24H)'' (Percent2 p)),
             Render Tab1Col1 (Progress pct),
             Render Tab1Col2 (Subheader ''Remaining Useful Life''),
             Render Tab1Col2 (Metric ''Estimated Remaining Hours'' (Hours0 r)),
             Render Tab1 (Subheader ''Machine Health Status''),
             Render Tab1 (health_status c),
             Render Tab1 (rul_advisory r),
             Render Tab2 (Subheader ''Prediction Explanation (SHAP)''),
             Render Tab2 (Write fallback_text)] @ model_info_tab,
            None)"
  using assms(6)
  by (simp add: cycle_complete [OF assms(1,2,3,4,5)] explainability_tab_def)

lemma scenario1_frame:
  "\<exists>df. input_df exact_mul scenario1 = Inr df \<and> columns df = observation_fields"
  by (simp add: input_df_valid [OF valid_scenario1] columns_def observation_fields_def)

lemma stub_inference:
  assumes "columns df = observation_fields"
  shows "inference (stub_classifier q p c) (stub_regressor r) (stub_preprocessor observation_fields) df =
           Inr (observation_fields, p, c, r)"
  using assms
  by (simp add: inference_def stub_classifier_def stub_regressor_def stub_preprocessor_def
      missing_columns_def py_index_def)

lemma percent_25: "py_int (exact_mul (Finite 0.25) (Finite 100)) = Inr 25"
  by simp

theorem explanation_failure_is_not_fatal_witness:
  "predict_cycle exact_mul failing_shap (stub_classifier (Finite 0.75) (Finite 0.25) 0)
     (stub_regressor (Finite 1500)) (stub_preprocessor observation_fields) scenario1 =
     ([Render Tab1 (Columns 2),
       Render Tab1Col1 (Subheader ''Failure Probability''),
       Render Tab1Col1 (Metric ''Probability of Failure (Next 24H)'' (Percent2 (Finite 0.25))),
       Render Tab1Col1 (Progress 25),
       Render Tab1Col2 (Subheader ''Remaining Useful Life''),
       Render Tab1Col2 (Metric ''Estimated Remaining Hours'' (Hours0 (Finite 1500))),
       Render Tab1 (Subheader ''Machine Health Status''),
       Render Tab1 (Success ''Healthy - No immediate maintenance required.''),
       Render Tab1 (Info ''Machine has sufficient remaining life.''),
       Render Tab2 (Subheader ''Prediction Explanation (SHAP)''),
       Render Tab2 (Write ''SHAP explanation not available for this model type.'')] @ model_info_tab,
      None)"
proof -
  obtain df where df: "input_df exact_mul scenario1 = Inr df" "columns df = observation_fields"
    using scenario1_frame by blast
  have lo: "(0::int) \<le> 25" and hi: "(25::int) \<le> 100"
    by simp_all
  have fails: "explain failing_shap (stub_classifier (Finite 0.75) (Finite 0.25) 0)
      (stub_preprocessor observation_fields) observation_fields =
      Inl (Raised ''Model type not yet supported by TreeExplainer'')"
    by (simp add: explain_def failing_shap_def)
  show ?thesis
    using explanation_failure_is_not_fatal [OF df(1) stub_inference [OF df(2)] percent_25 lo hi fails]
    by (simp add: health_status_def rul_advisory_def fallback_text_def)
qed

lemma tabs_2_3_no_status:
  "Render Tab1 el \<notin> set (explainability_tab lib model preprocessor X @ model_info_tab)"
  by (simp add: explainability_tab_def model_info_tab_def split: sum.splits)

text \<open>
  Claim C10. In a cycle that reaches the status (the Inference Invoker returned and line
  118 did not raise), the "Healthy" status is on the page if and only if the predicted
  class equals 0, and the "High Risk of Failure" status is on the page if and only if it
  does not: every other class (2 or -1 as well as 1) is shown as high risk, and nothing
  rejects it. Exactly one of the two is shown.
\<close>

theorem health_status_shown:
  assumes "input_df fmul u = Inr df"
    and "inference model rul_model preprocessor df = Inr (X, p, c, r)"
    and "py_int (fmul p (Finite 100)) = Inr pct"
    and "0 \<le> pct" and "pct \<le> 100"
  shows "(Render Tab1 (Success ''Healthy - No immediate maintenance required.'')
            \<in> set (fst (predict_cycle fmul lib model rul_model preprocessor u)) \<longleftrightarrow> c = 0) \<and>
         (Render Tab1 (Error ''High Risk of Failure - Immediate maintenance required.'')
            \<in> set (fst (predict_cycle fmul lib model rul_model preprocessor u)) \<longleftrightarrow> c \<noteq> 0) \<and>
         Render Tab1 (health_status c)
            \<in> set (fst (predict_cycle fmul lib model rul_model preprocessor u))"
proof -
  have adv: "rul_advisory r \<noteq> Success ''Healthy - No immediate maintenance required.'' \<and>
      rul_advisory r \<noteq> Error ''High Risk of Failure - Immediate maintenance required.'' \<and>
      Success ''Healthy - No immediate maintenance required.'' \<noteq> rul_advisory r \<and>
      Error ''High Risk of Failure - Immediate maintenance required.'' \<noteq> rul_advisory r"
    by (simp add: rul_advisory_def)
  show ?thesis
    using adv tabs_2_3_no_status [of _ lib model preprocessor X]
    by (auto simp: cycle_complete [OF assms] health_status_def)
qed

theorem health_status_shown_witness:
  "Render Tab1 (Error ''High Risk of Failure - Immediate maintenance required.'')
     \<in> set (fst (predict_cycle exact_mul failing_shap (stub_classifier (Finite 0.75) (Finite 0.25) 2)
         (stub_regressor (Finite 1500)) (stub_preprocessor observation_fields) scenario1)) \<and>
   Render Tab1 (Success ''Healthy - No immediate maintenance required.'')
     \<notin> set (fst (predict_cycle exact_mul failing_shap (stub_classifier (Finite 0.75) (Finite 0.25) 2)
         (stub_regressor (Finite 1500)) (stub_preprocessor observation_fields) scenario1)) \<and>
   Render Tab1 (Success ''Healthy - No immediate maintenance required.'')
     \<in> set (fst (predict_cycle exact_mul failing_shap (stub_classifier (Finite 0.75) (Finite 0.25) 0)
         (stub_regressor (Finite 1500)) (stub_preprocessor observation_fields) scenario1)) \<and>
   Render Tab1 (Error ''High Risk of Failure - Immediate maintenance required.'')
     \<notin> set (fst (predict_cycle exact_mul failing_shap (stub_classifier (Finite 0.75) (Finite 0.25) 0)
         (stub_regressor (Finite 1500)) (stub_preprocessor observation_fields) scenario1))"
proof -
  obtain df where df: "input_df exact_mul scenario1 = Inr df" "columns df = observation_fields"
    using scenario1_frame by blast
  have lo: "(0::int) \<le> 25" and hi: "(25::int) \<le> 100"
    by simp_all
  have i2: "inference (stub_classifier (Finite 0.75) (Finite 0.25) 2) (stub_regressor (Finite 1500))
      (stub_preprocessor observation_fields) df = Inr (observation_fields, Finite 0.25, 2, Finite 1500)"
    and i0: "inference (stub_classifier (Finite 0.75) (Finite 0.25) 0) (stub_regressor (Finite 1500))
      (stub_preprocessor observation_fields) df = Inr (observation_fields, Finite 0.25, 0, Finite 1500)"
    by (rule stub_inference [OF df(2)])+
  show ?thesis
    using health_status_shown [where lib = failing_shap, OF df(1) i2 percent_25 lo hi]
          health_status_shown [where lib = failing_shap, OF df(1) i0 percent_25 lo hi]
    by simp
qed

text \<open>The function behind the status: "Healthy" for the class 0 and for no other.\<close>

lemma health_status_iff:
  "(health_status c = (Success ''Healthy - No immediate maintenance required.'' :: 'g element)
      \<longleftrightarrow> c = 0) \<and>
   (health_status c = (Error ''High Risk of Failure - Immediate maintenance required.'' :: 'g element)
      \<longleftrightarrow> c \<noteq> 0)"
  by (simp add: health_status_def)

section \<open>The whole script\<close>

lemma load_all:
  assumes "best_model_pkl fs = Inr model" and "rul_model_pkl fs = Inr rul_model"
    and "preprocessor_pkl fs = Inr preprocessor"
  shows "load_artifacts fs =
           ([Loaded ''best_model.pkl'', Loaded ''rul_model.pkl'', Loaded ''preprocessor.pkl''],
            Inr (model, rul_model, preprocessor))"
  using assms by (simp add: load_artifacts_def)

lemma run_after_load:
  assumes "best_model_pkl fs = Inr model" and "rul_model_pkl fs = Inr rul_model"
    and "preprocessor_pkl fs = Inr preprocessor"
  shows "run_script fmul lib fs u =
           and_then
             ([Loaded ''best_model.pkl'', Loaded ''rul_model.pkl'', Loaded ''preprocessor.pkl'']
                @ page_head @ sidebar @ tabs, None)
             (if predict_button u
              then and_then (predict_cycle fmul lib model rul_model preprocessor u) (footer, None)
              else (idle @ footer, None))"
  by (simp add: run_script_def load_all [OF assms])

lemma chrome_not_in_tabs: "\<not> list_ex in_tabs (page_head @ sidebar @ tabs)"
  by (simp add: page_head_def sidebar_def tabs_def)

text \<open>
  Claim C7. Let the preprocessor be one that rejects a frame lacking a column it expects,
  and let the Observation lack such a column. Then the transform raises, the Inference
  Invoker and the cycle end with that exception and an empty trace, and the run of the
  script ends with it after the page head, the sidebar and the tab bar: nothing is placed
  in any tab (no result, no fallback text) and the exception is not caught.
\<close>

theorem schema_mismatch_aborts:
  assumes "schema_checking preprocessor expected"
    and "input_df fmul u = Inr df"
    and "missing_columns expected df"
    and "best_model_pkl fs = Inr model"
    and "rul_model_pkl fs = Inr rul_model"
    and "preprocessor_pkl fs = Inr preprocessor"
    and "predict_button u"
  shows "\<exists>msg. transform preprocessor df = Inl (Raised msg) \<and>
           inference model rul_model preprocessor df = Inl (Raised msg) \<and>
           predict_cycle fmul lib model rul_model preprocessor u = ([], Some (Raised msg)) \<and>
           run_script fmul lib fs u =
             ([Loaded ''best_model.pkl'', Loaded ''rul_model.pkl'', Loaded ''preprocessor.pkl'']
                @ page_head @ sidebar @ tabs,
              Some (Raised msg)) \<and>
           \<not> list_ex in_tabs (fst (run_script fmul lib fs u))"
proof -
  obtain msg where t: "transform preprocessor df = Inl (Raised msg)"
    using assms(1,3) unfolding schema_checking_def by blast
  have i: "inference model rul_model preprocessor df = Inl (Raised msg)"
    by (rule transform_failure [OF t])
  have c: "predict_cycle fmul lib model rul_model preprocessor u = ([], Some (Raised msg))"
    by (rule cycle_inference_failure [OF assms(2) i])
  have r: "run_script fmul lib fs u =
             ([Loaded ''best_model.pkl'', Loaded ''rul_model.pkl'', Loaded ''preprocessor.pkl'']
                @ page_head @ sidebar @ tabs,
              Some (Raised msg))"
    using assms(7) by (simp add: run_after_load [OF assms(4,5,6)] c and_then_def)
  have "\<not> list_ex in_tabs (fst (run_script fmul lib fs u))"
    using chrome_not_in_tabs by (simp add: r)
  with t i c r show ?thesis by blast
qed

lemma stub_schema_checking: "schema_checking (stub_preprocessor expected) expected"
  by (simp add: schema_checking_def stub_preprocessor_def)

theorem schema_mismatch_aborts_witness:
  "run_script exact_mul drawing_shap
     (stub_files (Finite 0.75) (Finite 0.25) 0 (Finite 1500) (observation_fields @ [''Temp_Trend'']))
     scenario1 =
     ([Loaded ''best_model.pkl'', Loaded ''rul_model.pkl'', Loaded ''preprocessor.pkl'']
        @ page_head @ sidebar @ tabs,
      Some (Raised ''columns are missing''))"
proof -
  let ?exp = "observation_fields @ [''Temp_Trend'']"
  let ?fs = "stub_files (Finite 0.75) (Finite 0.25) 0 (Finite 1500) ?exp"
  obtain df where df: "input_df exact_mul scenario1 = Inr df" "columns df = observation_fields"
    using scenario1_frame by blast
  have miss: "missing_columns ?exp df"
    by (simp add: missing_columns_def df(2) observation_fields_def)
  have b: "predict_button scenario1"
    by (simp add: scenario1_def)
  have f1: "best_model_pkl ?fs = Inr (stub_classifier (Finite 0.75) (Finite 0.25) 0)"
    and f2: "rul_model_pkl ?fs = Inr (stub_regressor (Finite 1500))"
    and f3: "preprocessor_pkl ?fs = Inr (stub_preprocessor ?exp)"
    by (simp_all add: stub_files_def)
  have t: "transform (stub_preprocessor ?exp) df = Inl (Raised ''columns are missing'')"
    using miss by (simp add: stub_preprocessor_def)
  show ?thesis
    using schema_mismatch_aborts [OF stub_schema_checking df(1) miss f1 f2 f3 b,
        of drawing_shap] t
    by auto
qed

lemma invoker_passes_through:
  assumes "inference model rul_model preprocessor df = Inr (X, p, c, r)"
  shows "transform preprocessor df = Inr X \<and>
         (\<exists>proba classes.
            predict_proba model X = Inr proba \<and> predict model X = Inr classes \<and>
            0 < length proba \<and> 1 < length (proba ! 0) \<and> p = proba ! 0 ! 1 \<and>
            0 < length classes \<and> c = classes ! 0)"
  using assms
  by (auto simp: inference_def py_index_def split: sum.splits if_splits)

text \<open>
  Claim C8. Let the classifier be a binary classifier in the sense of section 2 of the
  specification: its probabilities are in [0,1] and its labels are 0 or 1. Then in every
  cycle in which the Inference Invoker returns, the failure probability is in [0,1] and
  the health class is 0 or 1: the probability is the entry [0][1] of what
  \<^verbatim>\<open>predict_proba\<close> returned for the transformed row, the mass of the positive class,
  and the class is the entry [0] of what \<^verbatim>\<open>predict\<close> returned.
\<close>

theorem failure_probability_in_range:
  assumes "binary_classifier model"
    and "inference model rul_model preprocessor df = Inr (X, p, c, r)"
  shows "in_range 0 1 p \<and> c \<in> {0, 1} \<and>
         (\<exists>proba classes.
            predict_proba model X = Inr proba \<and> predict model X = Inr classes \<and>
            p = proba ! 0 ! 1 \<and> c = classes ! 0)"
proof -
  from invoker_passes_through [OF assms(2)] obtain proba classes where
    pp: "predict_proba model X = Inr proba" and pc: "predict model X = Inr classes" and
    l: "0 < length proba" "1 < length (proba ! 0)" "0 < length classes" and
    v: "p = proba ! 0 ! 1" "c = classes ! 0"
    by blast
  have m: "proba ! 0 \<in> set proba" "proba ! 0 ! 1 \<in> set (proba ! 0)" "classes ! 0 \<in> set classes"
    using l by simp_all
  have "\<forall>row \<in> set proba. \<forall>q \<in> set row. in_range 0 1 q" and "\<forall>k \<in> set classes. k \<in> {0, 1}"
    using assms(1) pp pc unfolding binary_classifier_def by blast+
  then have "in_range 0 1 p" and "c \<in> {0, 1}"
    using m unfolding v by blast+
  with pp pc v show ?thesis
    by blast
qed

lemma stub_binary_classifier:
  "in_range 0 1 q \<Longrightarrow> in_range 0 1 p \<Longrightarrow> c \<in> {0, 1} \<Longrightarrow> binary_classifier (stub_classifier q p c)"
  by (simp add: binary_classifier_def stub_classifier_def)

theorem failure_probability_in_range_witness:
  "binary_classifier (stub_classifier (Finite 0.75) (Finite 0.25) 1) \<and>
   (\<exists>df. input_df exact_mul scenario1 = Inr df \<and>
      inference (stub_classifier (Finite 0.75) (Finite 0.25) 1) (stub_regressor (Finite 1500))
        (stub_preprocessor observation_fields) df =
        Inr (observation_fields, Finite 0.25, 1, Finite 1500)) \<and>
   in_range 0 1 (Finite 0.25) \<and> (1::int) \<in> {0, 1}"
proof -
  obtain df where df: "input_df exact_mul scenario1 = Inr df" "columns df = observation_fields"
    using scenario1_frame by blast
  let ?m = "stub_classifier (Finite 0.75) (Finite 0.25) 1"
  have b: "binary_classifier ?m"
    by (rule stub_binary_classifier) (simp_all add: in_range_def)
  have i: "inference ?m (stub_regressor (Finite 1500)) (stub_preprocessor observation_fields) df =
        Inr (observation_fields, Finite 0.25, 1, Finite 1500)"
    by (rule stub_inference [OF df(2)])
  have "in_range 0 1 (Finite 0.25) \<and> (1::int) \<in> {0, 1}"
    using failure_probability_in_range [OF b i] by blast
  with b df(1) i show ?thesis
    by blast
qed

text \<open>
  The program itself checks neither value at the Inference Invoker. A probability outside
  the contract is stopped only where it makes line 118 raise: here 1.5 gives
  \<^verbatim>\<open>st.progress(150)\<close>, and the cycle ends there with three elements on the page.
\<close>

lemma outside_contract:
  "\<exists>df. input_df exact_mul scenario1 = Inr df \<and>
     inference (stub_classifier (Finite (- 0.5)) (Finite 1.5) 2) (stub_regressor (Finite 500))
       (stub_preprocessor observation_fields) df =
       Inr (observation_fields, Finite 1.5, 2, Finite 500) \<and>
     predict_cycle exact_mul drawing_shap (stub_classifier (Finite (- 0.5)) (Finite 1.5) 2)
       (stub_regressor (Finite 500)) (stub_preprocessor observation_fields) scenario1 =
       ([Render Tab1 (Columns 2),
         Render Tab1Col1 (Subheader ''Failure Probability''),
         Render Tab1Col1 (Metric ''Probability of Failure (Next 24H)'' (Percent2 (Finite 1.5)))],
        Some StreamlitAPIException)"
proof -
  obtain df where df: "input_df exact_mul scenario1 = Inr df" "columns df = observation_fields"
    using scenario1_frame by blast
  have i: "inference (stub_classifier (Finite (- 0.5)) (Finite 1.5) 2) (stub_regressor (Finite 500))
       (stub_preprocessor observation_fields) df =
       Inr (observation_fields, Finite 1.5, 2, Finite 500)"
    by (rule stub_inference [OF df(2)])
  have "predict_cycle exact_mul drawing_shap (stub_classifier (Finite (- 0.5)) (Finite 1.5) 2)
       (stub_regressor (Finite 500)) (stub_preprocessor observation_fields) scenario1 =
       ([Render Tab1 (Columns 2),
         Render Tab1Col1 (Subheader ''Failure Probability''),
         Render Tab1Col1 (Metric ''Probability of Failure (Next 24H)'' (Percent2 (Finite 1.5)))],
        Some StreamlitAPIException)"
    using cycle_after_inference [OF df(1) i, of drawing_shap]
    by (simp add: overview_tab_def and_then_def)
  with df(1) i show ?thesis
    by blast
qed

lemma overview_no_load: "\<not> list_ex is_load (fst (overview_tab fmul p c r))"
  by (simp add: overview_tab_def split: sum.splits)

lemma cycle_no_load: "\<not> list_ex is_load (fst (predict_cycle fmul lib model rul_model preprocessor u))"
  using overview_no_load [of fmul]
  by (auto simp: predict_cycle_def and_then_def explainability_tab_def model_info_tab_def
      split: sum.splits option.splits)

lemma chrome_no_load: "\<not> list_ex is_load (page_head @ sidebar @ tabs)"
  by (simp add: page_head_def sidebar_def tabs_def)

lemma run_loaded_shape:
  assumes ok: "best_model_pkl fs = Inr model" "rul_model_pkl fs = Inr rul_model"
    "preprocessor_pkl fs = Inr preprocessor"
  shows "\<exists>rest status.
         run_script fmul lib fs u =
           ([Loaded ''best_model.pkl'', Loaded ''rul_model.pkl'', Loaded ''preprocessor.pkl'']
              @ page_head @ sidebar @ tabs @ rest, status) \<and>
         \<not> list_ex is_load (page_head @ sidebar @ tabs @ rest)"
proof -
  let ?k = "if predict_button u
            then and_then (predict_cycle fmul lib model rul_model preprocessor u) (footer, None)
            else (idle @ footer, None)"
  have k: "\<not> list_ex is_load (fst ?k)"
    using cycle_no_load [of fmul lib model rul_model preprocessor u]
    by (simp add: and_then_def footer_def idle_def split: option.splits)
  have "run_script fmul lib fs u =
         ([Loaded ''best_model.pkl'', Loaded ''rul_model.pkl'', Loaded ''preprocessor.pkl'']
            @ page_head @ sidebar @ tabs @ fst ?k, snd ?k)"
    by (simp add: run_after_load [OF ok] and_then_def)
  moreover have "\<not> list_ex is_load (page_head @ sidebar @ tabs @ fst ?k)"
    using k chrome_no_load by simp
  ultimately show ?thesis by blast
qed

text \<open>
  Claim C9, amended. In every execution of the script the three artifacts are loaded
  first, in the order classifier, regressor, preprocessor, each once in that execution.
  If a load raises, the execution ends there with that exception: its trace holds only the
  loads that succeeded before, so no widget was created, no input was read and no
  prediction was made. If all three succeed, the page head, the sidebar widgets and
  everything after them follow the three loads, and nothing is loaded again before the
  execution ends.
\<close>

theorem artifacts_loaded_first:
  "(best_model_pkl fs = Inl e \<longrightarrow> run_script fmul lib fs u = ([], Some e)) \<and>
   (best_model_pkl fs = Inr model \<and> rul_model_pkl fs = Inl e \<longrightarrow>
      run_script fmul lib fs u = ([Loaded ''best_model.pkl''], Some e)) \<and>
   (best_model_pkl fs = Inr model \<and> rul_model_pkl fs = Inr rul_model \<and>
    preprocessor_pkl fs = Inl e \<longrightarrow>
      run_script fmul lib fs u =
        ([Loaded ''best_model.pkl'', Loaded ''rul_model.pkl''], Some e)) \<and>
   (best_model_pkl fs = Inr model \<and> rul_model_pkl fs = Inr rul_model \<and>
    preprocessor_pkl fs = Inr preprocessor \<longrightarrow>
      (\<exists>rest status.
         run_script fmul lib fs u =
           ([Loaded ''best_model.pkl'', Loaded ''rul_model.pkl'', Loaded ''preprocessor.pkl'']
              @ page_head @ sidebar @ tabs @ rest, status) \<and>
         \<not> list_ex is_load (page_head @ sidebar @ tabs @ rest)))"
proof -
  have a: "best_model_pkl fs = Inl e \<Longrightarrow> run_script fmul lib fs u = ([], Some e)"
    by (simp add: run_script_def load_artifacts_def)
  have b: "best_model_pkl fs = Inr model \<Longrightarrow> rul_model_pkl fs = Inl e \<Longrightarrow>
      run_script fmul lib fs u = ([Loaded ''best_model.pkl''], Some e)"
    by (simp add: run_script_def load_artifacts_def)
  have c: "best_model_pkl fs = Inr model \<Longrightarrow> rul_model_pkl fs = Inr rul_model \<Longrightarrow>
      preprocessor_pkl fs = Inl e \<Longrightarrow>
      run_script fmul lib fs u = ([Loaded ''best_model.pkl'', Loaded ''rul_model.pkl''], Some e)"
    by (simp add: run_script_def load_artifacts_def)
  show ?thesis
    using a b c run_loaded_shape [of fs model rul_model preprocessor fmul lib u] by blast
qed

theorem artifacts_loaded_first_witness:
  "run_script exact_mul drawing_shap
     ((stub_files (Finite 0.75) (Finite 0.25) 0 (Finite 1500) observation_fields)
        \<lparr>best_model_pkl := Inl (Raised ''No such file or directory: best_model.pkl'')\<rparr>)
     scenario1 =
     ([], Some (Raised ''No such file or directory: best_model.pkl'')) \<and>
   run_script exact_mul drawing_shap
     ((stub_files (Finite 0.75) (Finite 0.25) 0 (Finite 1500) observation_fields)
        \<lparr>rul_model_pkl := Inl (Raised ''No such file or directory: rul_model.pkl'')\<rparr>)
     scenario1 =
     ([Loaded ''best_model.pkl''], Some (Raised ''No such file or directory: rul_model.pkl'')) \<and>
   run_script exact_mul drawing_shap
     ((stub_files (Finite 0.75) (Finite 0.25) 0 (Finite 1500) observation_fields)
        \<lparr>preprocessor_pkl := Inl (Raised ''invalid load key'')\<rparr>)
     scenario1 =
     ([Loaded ''best_model.pkl'', Loaded ''rul_model.pkl''], Some (Raised ''invalid load key'')) \<and>
   (\<exists>rest status.
      run_script exact_mul drawing_shap
        (stub_files (Finite 0.75) (Finite 0.25) 0 (Finite 1500) observation_fields) scenario1 =
        ([Loaded ''best_model.pkl'', Loaded ''rul_model.pkl'', Loaded ''preprocessor.pkl'']
           @ page_head @ sidebar @ tabs @ rest, status) \<and>
      \<not> list_ex is_load (page_head @ sidebar @ tabs @ rest))"
proof -
  let ?fs = "stub_files (Finite 0.75) (Finite 0.25) 0 (Finite 1500) observation_fields"
  let ?m = "stub_classifier (Finite 0.75) (Finite 0.25) 0"
  let ?r = "stub_regressor (Finite 1500)"
  let ?p = "stub_preprocessor observation_fields"
  have f: "best_model_pkl ?fs = Inr ?m" "rul_model_pkl ?fs = Inr ?r" "preprocessor_pkl ?fs = Inr ?p"
    by (simp_all add: stub_files_def)
  show ?thesis
    using artifacts_loaded_first
            [of "?fs\<lparr>best_model_pkl := Inl (Raised ''No such file or directory: best_model.pkl'')\<rparr>"
                "Raised ''No such file or directory: best_model.pkl''"
                exact_mul drawing_shap scenario1 ?m ?r ?p]
          artifacts_loaded_first
            [of "?fs\<lparr>rul_model_pkl := Inl (Raised ''No such file or directory: rul_model.pkl'')\<rparr>"
                "Raised ''No such file or directory: rul_model.pkl''"
                exact_mul drawing_shap scenario1 ?m ?r ?p]
          artifacts_loaded_first
            [of "?fs\<lparr>preprocessor_pkl := Inl (Raised ''invalid load key'')\<rparr>"
                "Raised ''invalid load key''"
                exact_mul drawing_shap scenario1 ?m ?r ?p]
          artifacts_loaded_first
            [of ?fs "Raised ''none''" exact_mul drawing_shap scenario1 ?m ?r ?p]
          f
    by simp
qed

lemma no_load_count: "\<not> list_ex is_load xs \<Longrightarrow> count_list xs (Loaded f) = 0"
  by (induction xs) auto

lemma button_in_sidebar: "Render Sidebar (Button ''Predict Machine Health'') \<in> set sidebar"
  by (simp add: sidebar_def)

text \<open>
  In a session whose files can be loaded at every execution, the classifier is loaded as
  many times as the script is executed.
\<close>

lemma run_load_count:
  assumes "best_model_pkl fs = Inr model" and "rul_model_pkl fs = Inr rul_model"
    and "preprocessor_pkl fs = Inr preprocessor"
  shows "count_list (fst (run_script fmul lib fs u)) (Loaded ''best_model.pkl'') = 1"
proof -
  obtain rest status where r: "run_script fmul lib fs u =
      ([Loaded ''best_model.pkl'', Loaded ''rul_model.pkl'', Loaded ''preprocessor.pkl'']
         @ (page_head @ sidebar @ tabs @ rest), status)"
    and n: "\<not> list_ex is_load (page_head @ sidebar @ tabs @ rest)"
    using run_loaded_shape [OF assms, of fmul lib u] by auto
  have "count_list (page_head @ sidebar @ tabs @ rest) (Loaded ''best_model.pkl'') = 0"
    by (rule no_load_count [OF n])
  then show ?thesis
    unfolding r by (simp del: append_assoc)
qed

lemma session_loads_every_execution:
  assumes "\<forall>s \<in> set steps. \<exists>model rul_model preprocessor.
             best_model_pkl (fst s) = Inr model \<and> rul_model_pkl (fst s) = Inr rul_model \<and>
             preprocessor_pkl (fst s) = Inr preprocessor"
  shows "count_list (session_trace fmul lib steps) (Loaded ''best_model.pkl'') = length steps"
  using assms
proof (induction steps)
  case Nil
  then show ?case by (simp add: session_trace_def session_def)
next
  case (Cons s steps)
  obtain fs u where s: "s = (fs, u)" by (cases s)
  from Cons.prems obtain model rul_model preprocessor where
    ok: "best_model_pkl fs = Inr model" "rul_model_pkl fs = Inr rul_model"
      "preprocessor_pkl fs = Inr preprocessor"
    unfolding s by auto
  have tl: "count_list (session_trace fmul lib steps) (Loaded ''best_model.pkl'') = length steps"
    using Cons by simp
  have "session_trace fmul lib (s # steps) =
      fst (run_script fmul lib fs u) @ session_trace fmul lib steps"
    by (simp add: session_trace_def session_def s)
  then show ?case
    using run_load_count [OF ok, of fmul lib u] tl by simp
qed

text \<open>
  Claim C9 as stated fails: the artifacts are not loaded once for the process. In the
  session of a page load followed by a click on the button, the script is executed twice
  and each execution loads the three files: the classifier is loaded twice, the second
  time after the widgets of the first execution were created and the click was accepted.
\<close>

theorem loaded_once_counterexample:
  "count_list
     (session_trace exact_mul drawing_shap
        [(stub_files (Finite 0.75) (Finite 0.25) 0 (Finite 1500) observation_fields,
          scenario1\<lparr>predict_button := False\<rparr>),
         (stub_files (Finite 0.75) (Finite 0.25) 0 (Finite 1500) observation_fields, scenario1)])
     (Loaded ''best_model.pkl'') = 2 \<and>
   (\<exists>first second.
      session_trace exact_mul drawing_shap
        [(stub_files (Finite 0.75) (Finite 0.25) 0 (Finite 1500) observation_fields,
          scenario1\<lparr>predict_button := False\<rparr>),
         (stub_files (Finite 0.75) (Finite 0.25) 0 (Finite 1500) observation_fields, scenario1)] =
        first @ second \<and>
      Render Sidebar (Button ''Predict Machine Health'') \<in> set first \<and>
      take 3 second =
        [Loaded ''best_model.pkl'', Loaded ''rul_model.pkl'', Loaded ''preprocessor.pkl''])"
proof -
  let ?fs = "stub_files (Finite 0.75) (Finite 0.25) 0 (Finite 1500) observation_fields"
  let ?idle = "scenario1\<lparr>predict_button := False\<rparr>"
  let ?L = "[Loaded ''best_model.pkl'', Loaded ''rul_model.pkl'', Loaded ''preprocessor.pkl'']
              :: string event list"
  have f: "best_model_pkl ?fs = Inr (stub_classifier (Finite 0.75) (Finite 0.25) 0)"
    "rul_model_pkl ?fs = Inr (stub_regressor (Finite 1500))"
    "preprocessor_pkl ?fs = Inr (stub_preprocessor observation_fields)"
    by (simp_all add: stub_files_def)
  obtain r1 s1 where r1: "run_script exact_mul drawing_shap ?fs ?idle =
      (?L @ page_head @ sidebar @ tabs @ r1, s1)"
    "\<not> list_ex is_load (page_head @ sidebar @ tabs @ r1)"
    using run_loaded_shape [OF f, of exact_mul drawing_shap ?idle] by blast
  obtain r2 s2 where r2: "run_script exact_mul drawing_shap ?fs scenario1 =
      (?L @ page_head @ sidebar @ tabs @ r2, s2)"
    "\<not> list_ex is_load (page_head @ sidebar @ tabs @ r2)"
    using run_loaded_shape [OF f, of exact_mul drawing_shap scenario1] by blast
  let ?first = "?L @ page_head @ sidebar @ tabs @ r1"
  let ?second = "?L @ page_head @ sidebar @ tabs @ r2"
  have t: "session_trace exact_mul drawing_shap [(?fs, ?idle), (?fs, scenario1)] = ?first @ ?second"
    using r1(1) r2(1) by (simp add: session_trace_def session_def)
  have n1: "count_list (page_head @ sidebar @ tabs @ r1) (Loaded ''best_model.pkl'') = 0"
    and n2: "count_list (page_head @ sidebar @ tabs @ r2) (Loaded ''best_model.pkl'') = 0"
    by (rule no_load_count [OF r1(2)], rule no_load_count [OF r2(2)])
  have "count_list (?first @ ?second) (Loaded ''best_model.pkl'') = 2"
    using n1 n2 by (simp del: append_assoc add: count_list_append)
  moreover have "Render Sidebar (Button ''Predict Machine Health'') \<in> set ?first"
    by (simp add: button_in_sidebar)
  moreover have "take 3 ?second = ?L"
    by simp
  ultimately show ?thesis
    unfolding t by blast
qed

end
